theory Spec2Isabelle
  imports Complex_Main "HOL-Library.Sublist"
begin

section \<open>The Athena trading bot: BotManager (src/bot/core/bot_manager.py)\<close>

text \<open>
  A shallow embedding of \<^verbatim>\<open>BotManager\<close>. Python numbers (the RSI, the thresholds, the
  exposure and the P&L) are modelled as reals: the idealised arithmetic of the formulas, not
  IEEE rounding. Dictionaries with a fixed set of keys (the configuration, a signal, a risk
  assessment) are records; the per-symbol indicator bundle, whose keys may be missing, is
  an association list. Exceptions are values of type \<open>error\<close>; only instances of Python's
  \<^verbatim>\<open>Exception\<close> are modelled (interrupts and task cancellation are not).
\<close>

subsection \<open>Errors\<close>

datatype error =
    NotInitialized       \<comment> \<open>\<^verbatim>\<open>RuntimeError("Le bot n'est pas initialise")\<close> of \<^verbatim>\<open>run_cycle\<close>\<close>
  | AttributeError       \<comment> \<open>a method called on a component that is still \<^verbatim>\<open>None\<close>\<close>
  | IndexError           \<comment> \<open>\<^verbatim>\<open>exchanges[0]\<close> on an empty list\<close>
  | KeyError             \<comment> \<open>\<^verbatim>\<open>data['rsi']\<close> on a dict without the key\<close>
  | ZeroDivisionError    \<comment> \<open>\<^verbatim>\<open>/\<close> with a zero divisor\<close>
  | External string      \<comment> \<open>an exception raised inside an external collaborator\<close>

subsection \<open>Configuration\<close>

record entry_config =
  rsi_low :: real

record exit_config =
  rsi_high :: real

record strategy_config =
  strategy_type :: string             \<comment> \<open>\<^verbatim>\<open>strategy_config['type']\<close>\<close>
  entry :: entry_config
  exit :: exit_config

record risk_config =
  global_exposure_cap_pct :: real
  daily_loss_cap_pct :: real

record exchange_config =
  symbols :: "string list"

record ops_config =
  ntp_required :: bool

text \<open>The dictionary \<^verbatim>\<open>config['bot']\<close>.\<close>

record bot_config =
  config_mode :: string               \<comment> \<open>\<^verbatim>\<open>config['bot']['mode']\<close>\<close>
  exchanges :: "exchange_config list"
  strategy :: strategy_config
  risk :: risk_config
  ops :: ops_config
  data :: string                      \<comment> \<open>\<^verbatim>\<open>config['bot']['data']\<close>, opaque here\<close>

subsection \<open>Market data and signals\<close>

text \<open>
  The indicator bundle of one symbol is a dict from key names (\<^verbatim>\<open>'rsi'\<close>,
  \<^verbatim>\<open>'timestamp'\<close>) to numbers; the snapshot maps symbols to bundles.
\<close>

type_synonym symbol_data = "(string \<times> real) list"
type_synonym market_data = "string \<Rightarrow> symbol_data option"

datatype signal_reason =
    RSI_oversold real      \<comment> \<open>\<^verbatim>\<open>f"RSI oversold: {rsi}"\<close>\<close>
  | RSI_overbought real    \<comment> \<open>\<^verbatim>\<open>f"RSI overbought: {rsi}"\<close>\<close>

record signal =
  symbol :: string
  action :: string
  signal_strength :: real
  timestamp :: "real option"          \<comment> \<open>\<^verbatim>\<open>data.get('timestamp')\<close>\<close>
  reason :: signal_reason

text \<open>Python's true division raises on a zero divisor.\<close>

definition py_truediv :: "real \<Rightarrow> real \<Rightarrow> error + real" where
  "py_truediv a b = (if b = 0 then Inl ZeroDivisionError else Inr (a / b))"

text \<open>\<^verbatim>\<open>BotManager._mean_reversion_signal\<close> (lines 146 to 184).\<close>

definition mean_reversion_signal ::
    "string \<Rightarrow> symbol_data \<Rightarrow> strategy_config \<Rightarrow> error + signal option" where
  "mean_reversion_signal symb sdata cfg =
     (if sdata = [] \<or> map_of sdata ''rsi'' = None then Inr None
      else case map_of sdata ''rsi'' of
        None \<Rightarrow> Inl KeyError
      | Some rsi \<Rightarrow>
          if rsi < rsi_low (entry cfg) then
            (case py_truediv (rsi_low (entry cfg) - rsi) (rsi_low (entry cfg)) of
               Inl e \<Rightarrow> Inl e
             | Inr strength \<Rightarrow>
                 Inr (Some \<lparr>symbol = symb, action = ''buy'', signal_strength = strength,
                            timestamp = map_of sdata ''timestamp'',
                            reason = RSI_oversold rsi\<rparr>))
          else if rsi > rsi_high (exit cfg) then
            (case py_truediv (rsi - rsi_high (exit cfg)) (100 - rsi_high (exit cfg)) of
               Inl e \<Rightarrow> Inl e
             | Inr strength \<Rightarrow>
                 Inr (Some \<lparr>symbol = symb, action = ''sell'', signal_strength = strength,
                            timestamp = map_of sdata ''timestamp'',
                            reason = RSI_overbought rsi\<rparr>))
          else Inr None)"

text \<open>
  The loop of \<^verbatim>\<open>BotManager._generate_signals\<close> (lines 136 to 142): the symbols
  still to visit and the list \<^verbatim>\<open>signals\<close> built so far. An exception of the strategy ends
  the loop. A returned signal is a dict of five keys, hence truthy, and is appended.
\<close>

fun signals_loop ::
    "string list \<Rightarrow> market_data \<Rightarrow> strategy_config \<Rightarrow> signal list \<Rightarrow> error + signal list" where
  "signals_loop [] md sc signals = Inr signals"
| "signals_loop (symb # rest) md sc signals =
     (let symbol_data = (case md symb of None \<Rightarrow> [] | Some d \<Rightarrow> d) in
      if strategy_type sc = ''mean_reversion'' then
        (case mean_reversion_signal symb symbol_data sc of
           Inl e \<Rightarrow> Inl e
         | Inr None \<Rightarrow> signals_loop rest md sc signals
         | Inr (Some sg) \<Rightarrow> signals_loop rest md sc (signals @ [sg]))
      else signals_loop rest md sc signals)"

text \<open>\<^verbatim>\<open>BotManager._generate_signals\<close> (lines 121 to 144).\<close>

definition generate_signals :: "bot_config \<Rightarrow> market_data \<Rightarrow> error + signal list" where
  "generate_signals cfg md =
     (let signals = []; strategy_config = strategy cfg in
      case exchanges cfg of
        [] \<Rightarrow> Inl IndexError
      | ex # _ \<Rightarrow> signals_loop (symbols ex) md strategy_config signals)"

subsection \<open>Risk assessment\<close>

datatype risk_reason =
    Exposure_too_high real    \<comment> \<open>\<^verbatim>\<open>f"Exposition globale trop elevee: {current_exposure}%"\<close>\<close>
  | Daily_loss_limit real     \<comment> \<open>\<^verbatim>\<open>f"Limite de perte journaliere atteinte: {daily_pnl}%"\<close>\<close>

record risk_assessment =
  can_trade :: bool
  reasons :: "risk_reason list"
  current_exposure :: real
  daily_pnl :: real
  approved_signals :: "signal list"

text \<open>
  \<^verbatim>\<open>_calculate_current_exposure\<close> and \<^verbatim>\<open>_calculate_daily_pnl\<close> (lines 271 to 279) are
  placeholders in the source: both return 0.0.
\<close>

definition calculate_current_exposure :: real where
  "calculate_current_exposure = 0"

definition calculate_daily_pnl :: real where
  "calculate_daily_pnl = 0"

text \<open>
  The body of \<^verbatim>\<open>BotManager._assess_risks\<close> (lines 197 to 221), given the two readings
  the helper methods returned.
\<close>

definition assess_risks_from ::
    "risk_config \<Rightarrow> real \<Rightarrow> real \<Rightarrow> signal list \<Rightarrow> risk_assessment" where
  "assess_risks_from risk_config exposure pnl signals =
     (let can_trade0 = True;
          reasons0 = [];
          (can_trade1, reasons1) =
            (if exposure > global_exposure_cap_pct risk_config
             then (False, reasons0 @ [Exposure_too_high exposure])
             else (can_trade0, reasons0));
          (can_trade2, reasons2) =
            (if pnl < - daily_loss_cap_pct risk_config
             then (False, reasons1 @ [Daily_loss_limit pnl])
             else (can_trade1, reasons1))
      in \<lparr>can_trade = can_trade2, reasons = reasons2,
          current_exposure = exposure, daily_pnl = pnl,
          approved_signals = (if can_trade2 then signals else [])\<rparr>)"

text \<open>\<^verbatim>\<open>BotManager._assess_risks\<close> (lines 186 to 221).\<close>

definition assess_risks :: "bot_config \<Rightarrow> signal list \<Rightarrow> market_data \<Rightarrow> risk_assessment" where
  "assess_risks cfg signals md =
     assess_risks_from (risk cfg) calculate_current_exposure calculate_daily_pnl signals"

subsection \<open>External collaborators\<close>

text \<open>
  \<^verbatim>\<open>ExchangeManager\<close>, \<^verbatim>\<open>DataManager\<close> and \<^verbatim>\<open>MetricsCollector\<close> are imported by the
  source and defined elsewhere. The first two are handles here, holding what they were
  constructed from. Whether a call of one of their methods raises is an input of the model
  (an environment, one per operation of the manager); the calls made are recorded, in
  order, in the manager's \<open>calls\<close>.
\<close>

datatype exchange_manager = ExchangeManager "exchange_config list"

datatype data_manager = DataManager string

text \<open>The dict that \<^verbatim>\<open>run_cycle\<close> passes to \<^verbatim>\<open>update_metrics\<close> (lines 111 to 115).\<close>

record payload =
  cycle_completed :: bool
  signals_generated :: nat
  trades_executed :: nat

text \<open>
  Modelled from the spec: the state of \<^verbatim>\<open>MetricsCollector\<close>
  (\<^verbatim>\<open>bot.monitoring.metrics_collector\<close>, not among the sources). The spec's MetricsPort
  "records cycle outcomes, error counters": an error counter and the recorded outcomes.
\<close>

record metrics_collector =
  error_count :: nat
  recorded :: "payload list"

text \<open>
  Modelled from the spec: the constructor \<^verbatim>\<open>MetricsCollector(config['bot']['ops'])\<close>,
  not among the sources; a new collector has counted no error and recorded no cycle.
\<close>

definition new_metrics_collector :: "ops_config \<Rightarrow> metrics_collector" where
  "new_metrics_collector oc = \<lparr>error_count = 0, recorded = []\<rparr>"

text \<open>
  Modelled from the spec: \<^verbatim>\<open>MetricsCollector.increment_error_count\<close>, not among the
  sources; the spec's \<^verbatim>\<open>increment_error_count()\<close> adds one to the error counter.
\<close>

definition increment_error_count :: "metrics_collector \<Rightarrow> metrics_collector" where
  "increment_error_count mc = mc\<lparr>error_count := error_count mc + 1\<rparr>"

text \<open>
  Modelled from the spec: \<^verbatim>\<open>MetricsCollector.get_error_count\<close>, not among the sources;
  the spec's \<^verbatim>\<open>get_error_count() -> integer\<close> reads the error counter.
\<close>

definition get_error_count :: "metrics_collector \<Rightarrow> nat" where
  "get_error_count mc = error_count mc"

text \<open>
  Modelled from the spec: \<^verbatim>\<open>MetricsCollector.update_metrics\<close>, not among the sources;
  the spec's \<^verbatim>\<open>record_cycle(outcome)\<close> records the outcome of a cycle. The spec gives
  the port no operation that lowers the error counter.
\<close>

definition update_metrics :: "payload \<Rightarrow> metrics_collector \<Rightarrow> metrics_collector" where
  "update_metrics p mc = mc\<lparr>recorded := recorded mc @ [p]\<rparr>"

datatype event =
    Exchange_initialize | Data_initialize | Metrics_initialize
  | Test_connections | Test_connection
  | Get_latest_data
  | Execute_single_trade signal
  | Update_metrics payload
  | Increment_error_count | Get_error_count
  | Exchange_cleanup | Data_cleanup | Metrics_cleanup

subsection \<open>The manager's state\<close>

text \<open>
  The attributes that \<^verbatim>\<open>BotManager.__init__\<close> sets (lines 33 to 47), and the record of
  the calls made to the collaborators. Logging is not modelled.
\<close>

record bot_manager =
  config :: bot_config
  exchange_manager :: "exchange_manager option"
  data_manager :: "data_manager option"
  metrics_collector :: "metrics_collector option"
  is_initialized :: bool
  is_running :: bool
  emergency_stop :: bool
  mode :: string
  calls :: "event list"

text \<open>\<^verbatim>\<open>BotManager.__init__\<close> (lines 26 to 48).\<close>

definition new_bot_manager :: "bot_config \<Rightarrow> bot_manager" where
  "new_bot_manager cfg =
     \<lparr>config = cfg, exchange_manager = None, data_manager = None,
      metrics_collector = None, is_initialized = False, is_running = False,
      emergency_stop = False, mode = config_mode cfg, calls = []\<rparr>"

text \<open>
  A call of a collaborator's method: the call is recorded; it raises when the environment
  says so (\<open>Some\<close> of the exception's message).
\<close>

definition call_external ::
    "event \<Rightarrow> string option \<Rightarrow> bot_manager \<Rightarrow> (error + unit) \<times> bot_manager" where
  "call_external ev outcome s =
     ((case outcome of None \<Rightarrow> Inr () | Some m \<Rightarrow> Inl (External m)),
      s\<lparr>calls := calls s @ [ev]\<rparr>)"

subsection \<open>Initialisation\<close>

record init_env =
  exchange_initialize_raises :: "string option"
  data_initialize_raises :: "string option"
  metrics_initialize_raises :: "string option"
  test_connections_raises :: "string option"
  test_connection_raises :: "string option"

text \<open>
  \<^verbatim>\<open>BotManager._perform_safety_checks\<close> (lines 254 to 269). The NTP check is
  \<^verbatim>\<open>pass\<close> in the source.
\<close>

definition perform_safety_checks ::
    "init_env \<Rightarrow> bot_manager \<Rightarrow> (error + unit) \<times> bot_manager" where
  "perform_safety_checks env s =
     (case exchange_manager s of
        None \<Rightarrow> (Inl AttributeError, s)
      | Some em \<Rightarrow>
          (case call_external Test_connections (test_connections_raises env) s of
             (Inl e, s1) \<Rightarrow> (Inl e, s1)
           | (Inr u, s1) \<Rightarrow>
               (case data_manager s1 of
                  None \<Rightarrow> (Inl AttributeError, s1)
                | Some dm \<Rightarrow> call_external Test_connection (test_connection_raises env) s1)))"

text \<open>
  \<^verbatim>\<open>BotManager.initialize\<close> (lines 50 to 80). Each component is assigned before its
  \<^verbatim>\<open>initialize()\<close> is awaited; the \<^verbatim>\<open>except\<close> clause logs and re-raises.
\<close>

definition initialize :: "init_env \<Rightarrow> bot_manager \<Rightarrow> (error + unit) \<times> bot_manager" where
  "initialize env s =
     (let s0 = s\<lparr>exchange_manager := Some (ExchangeManager (exchanges (config s)))\<rparr> in
      case call_external Exchange_initialize (exchange_initialize_raises env) s0 of
        (Inl e, s1) \<Rightarrow> (Inl e, s1)
      | (Inr u, s1) \<Rightarrow>
     (let s1' = s1\<lparr>data_manager := Some (DataManager (data (config s1)))\<rparr> in
      case call_external Data_initialize (data_initialize_raises env) s1' of
        (Inl e, s2) \<Rightarrow> (Inl e, s2)
      | (Inr u, s2) \<Rightarrow>
     (let s2' = s2\<lparr>metrics_collector := Some (new_metrics_collector (ops (config s2)))\<rparr> in
      case call_external Metrics_initialize (metrics_initialize_raises env) s2' of
        (Inl e, s3) \<Rightarrow> (Inl e, s3)
      | (Inr u, s3) \<Rightarrow>
          (case perform_safety_checks env s3 of
             (Inl e, s4) \<Rightarrow> (Inl e, s4)
           | (Inr u, s4) \<Rightarrow> (Inr (), s4\<lparr>is_initialized := True\<rparr>)))))"

subsection \<open>One trading cycle\<close>

record cycle_env =
  get_latest_data :: "string + market_data"
  update_metrics_raises :: "string option"
  increment_error_count_raises :: "string option"
  get_error_count_raises :: "string option"

text \<open>\<^verbatim>\<open>BotManager._execute_single_trade\<close> (lines 244 to 252): a placeholder that logs.\<close>

definition execute_single_trade :: "signal \<Rightarrow> bot_manager \<Rightarrow> (error + unit) \<times> bot_manager" where
  "execute_single_trade sg s = (Inr (), s\<lparr>calls := calls s @ [Execute_single_trade sg]\<rparr>)"

text \<open>
  The loop of \<^verbatim>\<open>BotManager._execute_trades\<close> (lines 238 to 242): an exception of one
  trade is logged and the loop goes on.
\<close>

fun execute_loop :: "signal list \<Rightarrow> bot_manager \<Rightarrow> bot_manager" where
  "execute_loop [] s = s"
| "execute_loop (sg # rest) s =
     (case execute_single_trade sg s of
        (Inl e, s') \<Rightarrow> execute_loop rest s'
      | (Inr u, s') \<Rightarrow> execute_loop rest s')"

text \<open>
  \<^verbatim>\<open>BotManager._execute_trades\<close> (lines 223 to 242). The test of \<^verbatim>\<open>self.mode\<close> only
  chooses a log message.
\<close>

definition execute_trades ::
    "signal list \<Rightarrow> risk_assessment \<Rightarrow> bot_manager \<Rightarrow> (error + unit) \<times> bot_manager" where
  "execute_trades signals risk_assessment s =
     (Inr (), execute_loop (approved_signals risk_assessment) s)"

text \<open>
  The \<^verbatim>\<open>try\<close> block of \<^verbatim>\<open>BotManager.run_cycle\<close> (lines 97 to 115): the pipeline.
  \<^verbatim>\<open>risk_assessment.get('trades_executed', 0)\<close> is 0, the key is never set.
\<close>

definition cycle_body :: "cycle_env \<Rightarrow> bot_manager \<Rightarrow> (error + unit) \<times> bot_manager" where
  "cycle_body env s =
     (case data_manager s of
        None \<Rightarrow> (Inl AttributeError, s)
      | Some dm \<Rightarrow>
          (let s1 = s\<lparr>calls := calls s @ [Get_latest_data]\<rparr> in
           case get_latest_data env of
             Inl m \<Rightarrow> (Inl (External m), s1)
           | Inr market_data \<Rightarrow>
               (case generate_signals (config s1) market_data of
                  Inl e \<Rightarrow> (Inl e, s1)
                | Inr signals \<Rightarrow>
                    (let risk_assessment = assess_risks (config s1) signals market_data in
                     case (if can_trade risk_assessment
                           then execute_trades signals risk_assessment s1
                           else (Inr (), s1)) of
                       (Inl e, s2) \<Rightarrow> (Inl e, s2)
                     | (Inr u, s2) \<Rightarrow>
                         (case metrics_collector s2 of
                            None \<Rightarrow> (Inl AttributeError, s2)
                          | Some mc \<Rightarrow>
                              (let p = \<lparr>cycle_completed = True,
                                        signals_generated = length signals,
                                        trades_executed = 0\<rparr> in
                               case call_external (Update_metrics p)
                                      (update_metrics_raises env) s2 of
                                 (Inl e, s3) \<Rightarrow> (Inl e, s3)
                               | (Inr u, s3) \<Rightarrow>
                                   (Inr (), s3\<lparr>metrics_collector :=
                                                 Some (update_metrics p mc)\<rparr>)))))))"

text \<open>
  \<^verbatim>\<open>BotManager._handle_cycle_error\<close> (lines 281 to 292). The threshold 5 is a
  literal of the source.
\<close>

definition handle_cycle_error ::
    "cycle_env \<Rightarrow> error \<Rightarrow> bot_manager \<Rightarrow> (error + unit) \<times> bot_manager" where
  "handle_cycle_error env err s =
     (case metrics_collector s of
        None \<Rightarrow> (Inl AttributeError, s)
      | Some mc \<Rightarrow>
          (case call_external Increment_error_count (increment_error_count_raises env) s of
             (Inl e, s1) \<Rightarrow> (Inl e, s1)
           | (Inr u, s1) \<Rightarrow>
               (let mc' = increment_error_count mc;
                    s1' = s1\<lparr>metrics_collector := Some mc'\<rparr> in
                case call_external Get_error_count (get_error_count_raises env) s1' of
                  (Inl e, s2) \<Rightarrow> (Inl e, s2)
                | (Inr u, s2) \<Rightarrow>
                    (let error_count = get_error_count mc' in
                     if error_count > 5
                     then (Inr (), s2\<lparr>emergency_stop := True\<rparr>)
                     else (Inr (), s2)))))"

text \<open>\<^verbatim>\<open>BotManager.run_cycle\<close> (lines 82 to 119).\<close>

definition run_cycle :: "cycle_env \<Rightarrow> bot_manager \<Rightarrow> (error + unit) \<times> bot_manager" where
  "run_cycle env s =
     (if \<not> is_initialized s then (Inl NotInitialized, s)
      else if emergency_stop s then (Inr (), s)
      else case cycle_body env s of
             (Inl e, s') \<Rightarrow> handle_cycle_error env e s'
           | (Inr u, s') \<Rightarrow> (Inr (), s'))"

subsection \<open>Cleanup\<close>

record cleanup_env =
  exchange_cleanup_raises :: "string option"
  data_cleanup_raises :: "string option"
  metrics_cleanup_raises :: "string option"

text \<open>\<^verbatim>\<open>BotManager.cleanup\<close> (lines 294 to 307): three guarded calls, no handler.\<close>

definition cleanup :: "cleanup_env \<Rightarrow> bot_manager \<Rightarrow> (error + unit) \<times> bot_manager" where
  "cleanup env s =
     (case (case exchange_manager s of
              None \<Rightarrow> (Inr (), s)
            | Some em \<Rightarrow> call_external Exchange_cleanup (exchange_cleanup_raises env) s) of
        (Inl e, s1) \<Rightarrow> (Inl e, s1)
      | (Inr u, s1) \<Rightarrow>
     (case (case data_manager s1 of
              None \<Rightarrow> (Inr (), s1)
            | Some dm \<Rightarrow> call_external Data_cleanup (data_cleanup_raises env) s1) of
        (Inl e, s2) \<Rightarrow> (Inl e, s2)
      | (Inr u, s2) \<Rightarrow>
          (case metrics_collector s2 of
             None \<Rightarrow> (Inr (), s2)
           | Some mc \<Rightarrow> call_external Metrics_cleanup (metrics_cleanup_raises env) s2)))"

subsection \<open>Sequences of calls\<close>

text \<open>The state after a list of cycles, run one after the other.\<close>

fun run_cycles :: "cycle_env list \<Rightarrow> bot_manager \<Rightarrow> bot_manager" where
  "run_cycles [] s = s"
| "run_cycles (env # envs) s = run_cycles envs (snd (run_cycle env s))"

text \<open>
  Every cycle of the list, in the state it starts from, has a pipeline stage raise.
\<close>

fun all_cycles_fail :: "cycle_env list \<Rightarrow> bot_manager \<Rightarrow> bool" where
  "all_cycles_fail [] s = True"
| "all_cycles_fail (env # envs) s =
     (isl (fst (cycle_body env s)) \<and> all_cycles_fail envs (snd (run_cycle env s)))"

text \<open>
  The calls a client can make on a manager; the state they leave, whether they return or
  raise.
\<close>

datatype operation =
    Initialize init_env
  | Run_cycle cycle_env
  | Handle_cycle_error cycle_env error
  | Cleanup cleanup_env

fun apply_operation :: "operation \<Rightarrow> bot_manager \<Rightarrow> bot_manager" where
  "apply_operation (Initialize env) s = snd (initialize env s)"
| "apply_operation (Run_cycle env) s = snd (run_cycle env s)"
| "apply_operation (Handle_cycle_error env e) s = snd (handle_cycle_error env e s)"
| "apply_operation (Cleanup env) s = snd (cleanup env s)"

fun apply_operations :: "operation list \<Rightarrow> bot_manager \<Rightarrow> bot_manager" where
  "apply_operations [] s = s"
| "apply_operations (c # cs) s = apply_operations cs (apply_operation c s)"

subsection \<open>The signal generator as the spec words it\<close>



subsection \<open>Concrete inputs\<close>

text \<open>A configuration, a snapshot and environments on which the model is run below.\<close>

definition example_config :: bot_config where
  "example_config =
     \<lparr>config_mode = ''paper'',
      exchanges = [\<lparr>symbols = [''BTC/USDT'', ''ETH/USDT'', ''SOL/USDT'']\<rparr>],
      strategy = \<lparr>strategy_type = ''mean_reversion'',
                  entry = \<lparr>rsi_low = 30\<rparr>, exit = \<lparr>rsi_high = 70\<rparr>\<rparr>,
      risk = \<lparr>global_exposure_cap_pct = 20, daily_loss_cap_pct = 5\<rparr>,
      ops = \<lparr>ntp_required = True\<rparr>,
      data = ''athena.db''\<rparr>"

definition example_market :: market_data where
  "example_market =
     [''BTC/USDT'' \<mapsto> [(''rsi'', 25), (''timestamp'', 1700000000)],
      ''ETH/USDT'' \<mapsto> [(''rsi'', 75)]]"

definition example_signal :: signal where
  "example_signal = \<lparr>symbol = ''BTC/USDT'', action = ''buy'', signal_strength = 1 / 6,
                      timestamp = Some 1700000000, reason = RSI_oversold 25\<rparr>"

definition init_ok :: init_env where
  "init_ok = \<lparr>exchange_initialize_raises = None, data_initialize_raises = None,
              metrics_initialize_raises = None, test_connections_raises = None,
              test_connection_raises = None\<rparr>"

text \<open>A manager constructed from the configuration and initialised without failure.\<close>

definition ready_manager :: bot_manager where
  "ready_manager = snd (initialize init_ok (new_bot_manager example_config))"

definition cycle_ok :: cycle_env where
  "cycle_ok = \<lparr>get_latest_data = Inr example_market, update_metrics_raises = None,
               increment_error_count_raises = None, get_error_count_raises = None\<rparr>"

text \<open>A cycle whose data fetch raises.\<close>

definition fetch_fails :: cycle_env where
  "fetch_fails = \<lparr>get_latest_data = Inl ''timeout'', update_metrics_raises = None,
                  increment_error_count_raises = None, get_error_count_raises = None\<rparr>"

text \<open>A cycle whose data fetch raises and whose error handler cannot reach the collector.\<close>

definition handler_fails :: cycle_env where
  "handler_fails = \<lparr>get_latest_data = Inl ''timeout'', update_metrics_raises = None,
                    increment_error_count_raises = Some ''metrics backend down'',
                    get_error_count_raises = None\<rparr>"

definition five_failures :: "cycle_env list" where
  "five_failures = [fetch_fails, fetch_fails, fetch_fails, fetch_fails, fetch_fails]"

definition six_failures :: "cycle_env list" where
  "six_failures = five_failures @ [fetch_fails]"

definition cleanup_ok :: cleanup_env where
  "cleanup_ok = \<lparr>exchange_cleanup_raises = None, data_cleanup_raises = None,
                 metrics_cleanup_raises = None\<rparr>"

definition cleanup_exchange_fails :: cleanup_env where
  "cleanup_exchange_fails = \<lparr>exchange_cleanup_raises = Some ''connection reset'',
                 data_cleanup_raises = None, metrics_cleanup_raises = None\<rparr>"







text \<open>
  Six cycles whose data fetch raises; in the third the handler's
  \<^verbatim>\<open>increment_error_count\<close> raises too.
\<close>

definition handler_raises_once :: "cycle_env list" where
  "handler_raises_once =
     [fetch_fails, fetch_fails, handler_fails, fetch_fails, fetch_fails, fetch_fails]"

section \<open>Auxiliary facts\<close>

subsection \<open>Signals\<close>






lemma mean_reversion_signal_result:
  assumes "rsi_low (entry sc) \<noteq> 0" and "rsi_high (exit sc) \<noteq> 100"
  shows "mean_reversion_signal s d sc =
     Inr (case map_of d ''rsi'' of
            None \<Rightarrow> None
          | Some r \<Rightarrow>
              if r < rsi_low (entry sc) then
                Some \<lparr>symbol = s, action = ''buy'',
                      signal_strength = (rsi_low (entry sc) - r) / rsi_low (entry sc),
                      timestamp = map_of d ''timestamp'', reason = RSI_oversold r\<rparr>
              else if r > rsi_high (exit sc) then
                Some \<lparr>symbol = s, action = ''sell'',
                      signal_strength = (r - rsi_high (exit sc)) / (100 - rsi_high (exit sc)),
                      timestamp = map_of d ''timestamp'', reason = RSI_overbought r\<rparr>
              else None)"
  using assms
  by (auto simp: mean_reversion_signal_def py_truediv_def split: option.splits)

lemma mean_reversion_signal_error:
  "mean_reversion_signal s d sc = Inl e \<Longrightarrow> e = ZeroDivisionError"
  by (auto simp: mean_reversion_signal_def py_truediv_def split: option.splits if_splits)

lemma signals_loop_error:
  "signals_loop syms md sc acc = Inl e \<Longrightarrow> e = ZeroDivisionError"
  by (induction syms arbitrary: acc)
     (auto simp: Let_def split: if_splits sum.splits option.splits
           dest: mean_reversion_signal_error)

lemma generate_signals_error:
  "generate_signals cfg md = Inl e \<Longrightarrow> e = IndexError \<or> e = ZeroDivisionError"
  by (auto simp: generate_signals_def split: list.splits dest: signals_loop_error)

subsection \<open>The cycle and its error handler\<close>

lemma call_external_simps:
  "call_external ev None s = (Inr (), s\<lparr>calls := calls s @ [ev]\<rparr>)"
  "call_external ev (Some m) s = (Inl (External m), s\<lparr>calls := calls s @ [ev]\<rparr>)"
  by (simp_all add: call_external_def)

lemma execute_loop_calls:
  "execute_loop sigs s = s\<lparr>calls := calls s @ map Execute_single_trade sigs\<rparr>"
  by (induction sigs arbitrary: s) (simp_all add: execute_single_trade_def)

lemma cycle_body_frame:
  assumes "cycle_body env s = (r, s')"
  shows "is_initialized s' = is_initialized s \<and> emergency_stop s' = emergency_stop s \<and>
         config s' = config s \<and> exchange_manager s' = exchange_manager s \<and>
         data_manager s' = data_manager s \<and>
         (metrics_collector s' = None \<longleftrightarrow> metrics_collector s = None)"
  using assms
  by (auto simp: cycle_body_def Let_def execute_trades_def execute_loop_calls call_external_def
           split: option.splits sum.splits if_splits prod.splits)

lemma cycle_body_raises:
  assumes "cycle_body env s = (Inl e, s')"
  shows "metrics_collector s' = metrics_collector s \<and> e \<noteq> NotInitialized"
  using assms
  by (auto simp: cycle_body_def Let_def execute_trades_def execute_loop_calls call_external_def
           split: option.splits sum.splits if_splits prod.splits
           dest: generate_signals_error)

lemma handle_cycle_error_ok:
  assumes "metrics_collector s = Some mc"
    and "increment_error_count_raises env = None" and "get_error_count_raises env = None"
  shows "handle_cycle_error env e s =
           (Inr (), s\<lparr>calls := calls s @ [Increment_error_count, Get_error_count],
                      metrics_collector := Some (mc\<lparr>error_count := error_count mc + 1\<rparr>),
                      emergency_stop := (emergency_stop s \<or> 5 < error_count mc + 1)\<rparr>)"
  using assms
  by (simp add: handle_cycle_error_def call_external_def increment_error_count_def
        get_error_count_def Let_def)

lemma handle_cycle_error_frame:
  assumes "handle_cycle_error env e s = (r, s')"
  shows "is_initialized s' = is_initialized s \<and> (emergency_stop s \<longrightarrow> emergency_stop s') \<and>
         config s' = config s \<and> r \<noteq> Inl NotInitialized"
  using assms
  by (auto simp: handle_cycle_error_def call_external_def Let_def
           split: option.splits if_splits)

lemma handle_cycle_error_returns:
  assumes "metrics_collector s \<noteq> None"
    and "increment_error_count_raises env = None" and "get_error_count_raises env = None"
  shows "fst (handle_cycle_error env e s) = Inr ()"
  using assms
  by (auto simp: handle_cycle_error_def call_external_def Let_def)

lemma handle_cycle_error_propagates:
  assumes "metrics_collector s \<noteq> None"
  shows "increment_error_count_raises env = Some m \<Longrightarrow>
           fst (handle_cycle_error env e s) = Inl (External m)"
    and "increment_error_count_raises env = None \<Longrightarrow> get_error_count_raises env = Some m \<Longrightarrow>
           fst (handle_cycle_error env e s) = Inl (External m)"
  using assms
  by (auto simp: handle_cycle_error_def call_external_def Let_def)

lemma failing_cycle:
  assumes "is_initialized s" and "\<not> emergency_stop s" and "metrics_collector s = Some mc"
    and "isl (fst (cycle_body env s))"
    and "increment_error_count_raises env = None" and "get_error_count_raises env = None"
  shows "fst (run_cycle env s) = Inr () \<and>
         is_initialized (snd (run_cycle env s)) \<and>
         metrics_collector (snd (run_cycle env s)) =
           Some (mc\<lparr>error_count := error_count mc + 1\<rparr>) \<and>
         emergency_stop (snd (run_cycle env s)) = (5 < error_count mc + 1)"
proof -
  obtain e s1 where body: "cycle_body env s = (Inl e, s1)"
    using assms(4) by (cases "cycle_body env s") (auto simp: isl_def)
  have mc1: "metrics_collector s1 = Some mc"
    using cycle_body_raises [OF body] assms(3) by simp
  have fr: "is_initialized s1" "\<not> emergency_stop s1"
    using cycle_body_frame [OF body] assms(1,2) by simp_all
  have "run_cycle env s = handle_cycle_error env e s1"
    using assms(1,2) body by (simp add: run_cycle_def)
  then show ?thesis
    using handle_cycle_error_ok [OF mc1 assms(5,6), of e] fr by simp
qed

lemma run_cycles_append:
  "run_cycles (xs @ ys) s = run_cycles ys (run_cycles xs s)"
  by (induction xs arbitrary: s) simp_all

lemma all_cycles_fail_append:
  "all_cycles_fail (xs @ ys) s \<longleftrightarrow>
     all_cycles_fail xs s \<and> all_cycles_fail ys (run_cycles xs s)"
  by (induction xs arbitrary: s) auto

lemma failing_cycles_below_threshold:
  assumes "is_initialized s" and "\<not> emergency_stop s" and "metrics_collector s = Some mc"
    and "all_cycles_fail envs s"
    and "\<forall>env\<in>set envs. increment_error_count_raises env = None \<and>
                            get_error_count_raises env = None"
    and "error_count mc + length envs \<le> 5"
  shows "is_initialized (run_cycles envs s) \<and> \<not> emergency_stop (run_cycles envs s) \<and>
         metrics_collector (run_cycles envs s) =
           Some (mc\<lparr>error_count := error_count mc + length envs\<rparr>)"
  using assms
proof (induction envs arbitrary: s mc)
  case Nil
  then show ?case by simp
next
  case (Cons env envs)
  have step: "is_initialized (snd (run_cycle env s))"
    "metrics_collector (snd (run_cycle env s)) = Some (mc\<lparr>error_count := error_count mc + 1\<rparr>)"
    "\<not> emergency_stop (snd (run_cycle env s))"
    using failing_cycle [of s mc env] Cons.prems by simp_all
  show ?case
    using Cons.IH [OF step(1) step(3) step(2)] Cons.prems by simp
qed

lemma run_cycle_outcomes:
  "(fst (run_cycle env s) = Inl NotInitialized \<longleftrightarrow> \<not> is_initialized s) \<and>
   (is_initialized s \<and> emergency_stop s \<longrightarrow> run_cycle env s = (Inr (), s)) \<and>
   (is_initialized s \<and> \<not> emergency_stop s \<longrightarrow>
      (case cycle_body env s of
         (Inl e, s') \<Rightarrow> run_cycle env s = handle_cycle_error env e s'
       | (Inr u, s') \<Rightarrow> run_cycle env s = (Inr (), s'))) \<and>
   (is_initialized s \<and> metrics_collector s \<noteq> None \<and>
    increment_error_count_raises env = None \<and> get_error_count_raises env = None \<longrightarrow>
      fst (run_cycle env s) = Inr ()) \<and>
   (is_initialized s \<and> \<not> emergency_stop s \<and> metrics_collector s \<noteq> None \<and>
    isl (fst (cycle_body env s)) \<longrightarrow>
      (\<forall>m. increment_error_count_raises env = Some m \<or>
           (increment_error_count_raises env = None \<and> get_error_count_raises env = Some m) \<longrightarrow>
           fst (run_cycle env s) = Inl (External m)))"
proof (intro conjI impI)
  show "fst (run_cycle env s) = Inl NotInitialized \<longleftrightarrow> \<not> is_initialized s"
  proof (cases "cycle_body env s")
    case (Pair r s')
    show ?thesis
    proof (cases r)
      case (Inl e)
      obtain r' s'' where h: "handle_cycle_error env e s' = (r', s'')"
        by (cases "handle_cycle_error env e s'")
      from handle_cycle_error_frame [OF h] have "r' \<noteq> Inl NotInitialized" by blast
      with Pair Inl h show ?thesis
        by (auto simp: run_cycle_def)
    next
      case (Inr u)
      with Pair show ?thesis by (simp add: run_cycle_def)
    qed
  qed
next
  assume "is_initialized s \<and> emergency_stop s"
  then show "run_cycle env s = (Inr (), s)" by (simp add: run_cycle_def)
next
  assume "is_initialized s \<and> \<not> emergency_stop s"
  then show "case cycle_body env s of
         (Inl e, s') \<Rightarrow> run_cycle env s = handle_cycle_error env e s'
       | (Inr u, s') \<Rightarrow> run_cycle env s = (Inr (), s')"
    by (simp add: run_cycle_def split: prod.splits sum.splits)
next
  assume a: "is_initialized s \<and> metrics_collector s \<noteq> None \<and>
    increment_error_count_raises env = None \<and> get_error_count_raises env = None"
  show "fst (run_cycle env s) = Inr ()"
  proof (cases "cycle_body env s")
    case (Pair r s')
    show ?thesis
    proof (cases r)
      case (Inl e)
      have "metrics_collector s' \<noteq> None"
        using cycle_body_frame [OF Pair] a by simp
      then show ?thesis
        using Pair Inl a handle_cycle_error_returns [of s' env e]
        by (simp add: run_cycle_def)
    next
      case (Inr u)
      with Pair show ?thesis using a by (simp add: run_cycle_def)
    qed
  qed
next
  assume a: "is_initialized s \<and> \<not> emergency_stop s \<and> metrics_collector s \<noteq> None \<and>
    isl (fst (cycle_body env s))"
  show "\<forall>m. increment_error_count_raises env = Some m \<or>
           (increment_error_count_raises env = None \<and> get_error_count_raises env = Some m) \<longrightarrow>
           fst (run_cycle env s) = Inl (External m)"
  proof (intro allI impI)
    fix m
    assume r: "increment_error_count_raises env = Some m \<or>
           (increment_error_count_raises env = None \<and> get_error_count_raises env = Some m)"
    obtain e s' where body: "cycle_body env s = (Inl e, s')"
      using a by (cases "cycle_body env s") (auto simp: isl_def)
    have mc: "metrics_collector s' \<noteq> None"
      using cycle_body_frame [OF body] a by simp
    have "run_cycle env s = handle_cycle_error env e s'"
      using a body by (simp add: run_cycle_def)
    then show "fst (run_cycle env s) = Inl (External m)"
      using r handle_cycle_error_propagates [OF mc, of env m e] by auto
  qed
qed

subsection \<open>The emergency stop under each operation\<close>

lemma perform_safety_checks_frame:
  "perform_safety_checks env s = (r, s') \<Longrightarrow>
     emergency_stop s' = emergency_stop s \<and> is_initialized s' = is_initialized s"
  by (cases "test_connections_raises env"; cases "test_connection_raises env";
      cases "exchange_manager s"; cases "data_manager s")
     (auto simp: perform_safety_checks_def call_external_simps)

lemma initialize_emergency_stop:
  "emergency_stop (snd (initialize env s)) = emergency_stop s"
proof (cases "exchange_initialize_raises env")
  case (Some m)
  then show ?thesis by (simp add: initialize_def call_external_simps)
next
  case n1: None
  show ?thesis
  proof (cases "data_initialize_raises env")
    case (Some m)
    with n1 show ?thesis by (simp add: initialize_def call_external_simps)
  next
    case n2: None
    show ?thesis
    proof (cases "metrics_initialize_raises env")
      case (Some m)
      with n1 n2 show ?thesis by (simp add: initialize_def call_external_simps)
    next
      case n3: None
      show ?thesis
        by (auto simp: initialize_def call_external_simps n1 n2 n3 Let_def
              split: prod.splits sum.splits dest: perform_safety_checks_frame)
    qed
  qed
qed

lemma initialize_is_initialized:
  "(fst (initialize env s) = Inr () \<longrightarrow> is_initialized (snd (initialize env s))) \<and>
   (isl (fst (initialize env s)) \<longrightarrow>
      is_initialized (snd (initialize env s)) = is_initialized s)"
proof (cases "exchange_initialize_raises env")
  case (Some m)
  then show ?thesis by (simp add: initialize_def call_external_simps)
next
  case n1: None
  show ?thesis
  proof (cases "data_initialize_raises env")
    case (Some m)
    with n1 show ?thesis by (simp add: initialize_def call_external_simps)
  next
    case n2: None
    show ?thesis
    proof (cases "metrics_initialize_raises env")
      case (Some m)
      with n1 n2 show ?thesis by (simp add: initialize_def call_external_simps)
    next
      case n3: None
      show ?thesis
        by (auto simp: initialize_def call_external_simps n1 n2 n3 Let_def
              split: prod.splits sum.splits dest: perform_safety_checks_frame)
    qed
  qed
qed

lemma cleanup_emergency_stop:
  "emergency_stop (snd (cleanup env s)) = emergency_stop s"
  by (cases "exchange_cleanup_raises env"; cases "data_cleanup_raises env";
      cases "metrics_cleanup_raises env"; cases "exchange_manager s";
      cases "data_manager s"; cases "metrics_collector s")
     (simp_all add: cleanup_def call_external_simps)

lemma handle_cycle_error_emergency_stop:
  "emergency_stop s \<Longrightarrow> emergency_stop (snd (handle_cycle_error env e s))"
proof -
  assume stop: "emergency_stop s"
  obtain r s' where h: "handle_cycle_error env e s = (r, s')"
    by (cases "handle_cycle_error env e s")
  from handle_cycle_error_frame [OF h] stop have "emergency_stop s'" by blast
  with h show ?thesis by simp
qed

lemma run_cycle_emergency_stop:
  "emergency_stop s \<Longrightarrow> emergency_stop (snd (run_cycle env s))"
  by (cases "is_initialized s") (simp_all add: run_cycle_def)

lemma apply_operation_emergency_stop:
  "emergency_stop s \<Longrightarrow> emergency_stop (apply_operation c s)"
  by (cases c)
     (simp_all add: initialize_emergency_stop cleanup_emergency_stop
        handle_cycle_error_emergency_stop run_cycle_emergency_stop)

subsection \<open>The concrete runs\<close>

lemma ready_manager_eq:
  "ready_manager =
     \<lparr>config = example_config,
      exchange_manager = Some (ExchangeManager (exchanges example_config)),
      data_manager = Some (DataManager (data example_config)),
      metrics_collector = Some \<lparr>error_count = 0, recorded = []\<rparr>,
      is_initialized = True, is_running = False, emergency_stop = False,
      mode = ''paper'',
      calls = [Exchange_initialize, Data_initialize, Metrics_initialize,
               Test_connections, Test_connection]\<rparr>"
  by (simp add: ready_manager_def initialize_def new_bot_manager_def init_ok_def
        call_external_def perform_safety_checks_def new_metrics_collector_def
        example_config_def)

lemma fetch_fails_run:
  assumes "is_initialized s" and "\<not> emergency_stop s" and "data_manager s = Some dm"
    and "metrics_collector s = Some mc"
  shows "run_cycle fetch_fails s =
           (Inr (), s\<lparr>calls := calls s @ [Get_latest_data, Increment_error_count, Get_error_count],
                      metrics_collector := Some (mc\<lparr>error_count := error_count mc + 1\<rparr>),
                      emergency_stop := (5 < error_count mc + 1)\<rparr>)"
  using assms
  by (simp add: run_cycle_def cycle_body_def fetch_fails_def handle_cycle_error_def
        call_external_def increment_error_count_def get_error_count_def Let_def)

lemma fetch_fails_body:
  "data_manager s = Some dm \<Longrightarrow> isl (fst (cycle_body fetch_fails s))"
  by (simp add: cycle_body_def fetch_fails_def)

lemma handler_fails_run:
  assumes "is_initialized s" and "\<not> emergency_stop s" and "data_manager s = Some dm"
    and "metrics_collector s = Some mc"
  shows "run_cycle handler_fails s =
           (Inl (External ''metrics backend down''),
            s\<lparr>calls := calls s @ [Get_latest_data, Increment_error_count]\<rparr>)"
  using assms
  by (simp add: run_cycle_def cycle_body_def handler_fails_def handle_cycle_error_def
        call_external_simps Let_def)

lemma handler_fails_body:
  "data_manager s = Some dm \<Longrightarrow> isl (fst (cycle_body handler_fails s))"
  by (simp add: cycle_body_def handler_fails_def)

lemma five_failures_state:
  "run_cycles five_failures ready_manager =
     ready_manager
       \<lparr>calls := calls ready_manager @
           concat (replicate 5 [Get_latest_data, Increment_error_count, Get_error_count]),
        metrics_collector := Some \<lparr>error_count = 5, recorded = []\<rparr>\<rparr>"
  by (simp add: five_failures_def ready_manager_eq fetch_fails_run numeral_eq_Suc)

lemma six_failures_state:
  "run_cycles six_failures ready_manager =
     ready_manager
       \<lparr>calls := calls ready_manager @
           concat (replicate 6 [Get_latest_data, Increment_error_count, Get_error_count]),
        metrics_collector := Some \<lparr>error_count = 6, recorded = []\<rparr>,
        emergency_stop := True\<rparr>"
  by (simp add: six_failures_def run_cycles_append five_failures_state)
     (simp add: ready_manager_eq fetch_fails_run numeral_eq_Suc)

lemma six_failures_all_fail: "all_cycles_fail six_failures ready_manager"
  by (simp add: six_failures_def five_failures_def ready_manager_eq fetch_fails_run
        fetch_fails_body)

section \<open>Properties\<close>

subsection \<open>The kill switch\<close>

text \<open>
  C1, as amended. From an initialised manager whose collector has counted no error, with
  the handler's threshold of 5: when six cycles in a row each have a pipeline stage raise
  and, in each, the handler's two calls of the collector return, the emergency stop is off
  after each of the first five and on after the sixth; a seventh call of
  \<^verbatim>\<open>run_cycle\<close>, whatever its environment, returns without raising and leaves the
  state as it was, the record of calls included: no stage runs.
\<close>

theorem kill_switch_after_six_failures:
  assumes "is_initialized s" and "\<not> emergency_stop s"
    and "metrics_collector s = Some mc" and "error_count mc = 0"
    and "length envs = 6"
    and "all_cycles_fail envs s"
    and "\<forall>env\<in>set envs. increment_error_count_raises env = None \<and>
                            get_error_count_raises env = None"
  shows "(\<forall>k\<le>5. \<not> emergency_stop (run_cycles (take k envs) s)) \<and>
         emergency_stop (run_cycles envs s) \<and>
         (\<forall>env7. run_cycle env7 (run_cycles envs s) = (Inr (), run_cycles envs s))"
proof -
  have below: "is_initialized (run_cycles (take k envs) s) \<and>
               \<not> emergency_stop (run_cycles (take k envs) s) \<and>
               metrics_collector (run_cycles (take k envs) s) =
                 Some (mc\<lparr>error_count := k\<rparr>)" if "k \<le> 5" for k
  proof -
    have split: "envs = take k envs @ drop k envs" by simp
    have fail: "all_cycles_fail (take k envs) s"
      using assms(6) all_cycles_fail_append [of "take k envs" "drop k envs" s] by simp
    have ok: "\<forall>env\<in>set (take k envs). increment_error_count_raises env = None \<and>
                                          get_error_count_raises env = None"
      using assms(7) by (meson in_set_takeD)
    show ?thesis
      using failing_cycles_below_threshold [OF assms(1,2,3) fail ok] assms(4,5) that
      by simp
  qed
  have "envs = take 5 envs @ drop 5 envs" by simp
  moreover have "length (drop 5 envs) = 1" using assms(5) by simp
  then obtain env6 where "drop 5 envs = [env6]"
    by (cases "drop 5 envs") auto
  ultimately have last: "envs = take 5 envs @ [env6]" by simp
  let ?s5 = "run_cycles (take 5 envs) s"
  have fail6: "isl (fst (cycle_body env6 ?s5))"
    using assms(6) all_cycles_fail_append [of "take 5 envs" "[env6]" s] last by simp
  have ok6: "increment_error_count_raises env6 = None" "get_error_count_raises env6 = None"
    using assms(7) last by (metis in_set_conv_decomp)+
  have s6: "run_cycles envs s = snd (run_cycle env6 ?s5)"
    using run_cycles_append [of "take 5 envs" "[env6]" s] last by simp
  have five: "is_initialized ?s5" "\<not> emergency_stop ?s5"
    "metrics_collector ?s5 = Some (mc\<lparr>error_count := 5\<rparr>)"
    using below [of 5] by simp_all
  have six: "is_initialized (run_cycles envs s)" "emergency_stop (run_cycles envs s)"
    using failing_cycle [OF five fail6 ok6] s6 by simp_all
  show ?thesis
    using below six by (simp add: run_cycle_def)
qed

text \<open>
  The theorem at six cycles whose data fetch raises, from the manager initialised above.
\<close>

theorem kill_switch_witness:
  "\<not> emergency_stop (run_cycles (take 5 six_failures) ready_manager) \<and>
   emergency_stop (run_cycles six_failures ready_manager) \<and>
   run_cycle cycle_ok (run_cycles six_failures ready_manager) =
     (Inr (), run_cycles six_failures ready_manager)"
proof -
  have h1: "is_initialized ready_manager" and h2: "\<not> emergency_stop ready_manager"
    and h3: "metrics_collector ready_manager = Some \<lparr>error_count = 0, recorded = []\<rparr>"
    by (simp_all add: ready_manager_eq)
  have h4: "error_count \<lparr>error_count = 0, recorded = []\<rparr> = 0" by simp
  have h5: "length six_failures = 6" by (simp add: six_failures_def five_failures_def)
  have h7: "\<forall>env\<in>set six_failures. increment_error_count_raises env = None \<and>
                                         get_error_count_raises env = None"
    by (simp add: six_failures_def five_failures_def fetch_fails_def)
  from kill_switch_after_six_failures [OF h1 h2 h3 h4 h5 six_failures_all_fail h7]
  show ?thesis by simp
qed

text \<open>
  C1 as stated fails: from the initialised manager with no error counted, six cycles in a
  row have their data fetch raise; in the third the handler's
  \<^verbatim>\<open>increment_error_count\<close> raises, that failure is not counted, and after the sixth
  cycle the count is 5 and the emergency stop is still off.
\<close>

theorem kill_switch_needs_working_handler:
  "is_initialized ready_manager \<and> \<not> emergency_stop ready_manager \<and>
   map_option error_count (metrics_collector ready_manager) = Some 0 \<and>
   length handler_raises_once = 6 \<and>
   all_cycles_fail handler_raises_once ready_manager \<and>
   \<not> emergency_stop (run_cycles handler_raises_once ready_manager) \<and>
   map_option error_count (metrics_collector (run_cycles handler_raises_once ready_manager)) =
     Some 5"
  by (simp add: handler_raises_once_def ready_manager_eq fetch_fails_run fetch_fails_body
        handler_fails_run handler_fails_body)

text \<open>
  C9. Once the emergency stop is set, it stays set through any sequence of calls of
  \<^verbatim>\<open>initialize\<close>, \<^verbatim>\<open>run_cycle\<close>, the error handler and \<^verbatim>\<open>cleanup\<close>,
  whether a call returns or raises.
\<close>

theorem emergency_stop_monotonic:
  "emergency_stop s \<Longrightarrow> emergency_stop (apply_operations cs s)"
  by (induction cs arbitrary: s) (simp_all add: apply_operation_emergency_stop)

text \<open>
  The theorem at the manager that six failing cycles have stopped.
\<close>

theorem emergency_stop_monotonic_witness:
  "emergency_stop (run_cycles six_failures ready_manager) \<and>
   emergency_stop
     (apply_operations
        [Initialize init_ok, Run_cycle cycle_ok,
         Handle_cycle_error fetch_fails (External ''timeout''), Cleanup cleanup_ok]
        (run_cycles six_failures ready_manager))"
proof -
  have h: "emergency_stop (run_cycles six_failures ready_manager)"
    by (simp add: six_failures_state)
  from emergency_stop_monotonic [OF h] h show ?thesis by blast
qed

subsection \<open>Exceptions of a cycle\<close>

text \<open>
  C7, as amended. \<^verbatim>\<open>run_cycle\<close> raises the not-initialised error exactly when the
  manager is not initialised. On an initialised and stopped manager it returns at once.
  Otherwise an exception of a pipeline stage is handed to the error handler, whose outcome
  is the outcome of the call: on a manager whose collector is present the call returns
  normally when the handler's calls of the collector return, and an exception raised by
  \<^verbatim>\<open>increment_error_count\<close> or \<^verbatim>\<open>get_error_count\<close> inside the handler
  reaches the caller.
  A constructed manager is not initialised; \<^verbatim>\<open>initialize\<close> makes it initialised
  when it returns and leaves the flag as it was when it raises.
\<close>

theorem run_cycle_exceptions:
  "(fst (run_cycle env s) = Inl NotInitialized \<longleftrightarrow> \<not> is_initialized s) \<and>
   (is_initialized s \<and> emergency_stop s \<longrightarrow> run_cycle env s = (Inr (), s)) \<and>
   (is_initialized s \<and> \<not> emergency_stop s \<longrightarrow>
      (case cycle_body env s of
         (Inl e, s') \<Rightarrow> run_cycle env s = handle_cycle_error env e s'
       | (Inr u, s') \<Rightarrow> run_cycle env s = (Inr (), s'))) \<and>
   (is_initialized s \<and> metrics_collector s \<noteq> None \<and>
    increment_error_count_raises env = None \<and> get_error_count_raises env = None \<longrightarrow>
      fst (run_cycle env s) = Inr ()) \<and>
   (is_initialized s \<and> \<not> emergency_stop s \<and> metrics_collector s \<noteq> None \<and>
    isl (fst (cycle_body env s)) \<longrightarrow>
      (\<forall>m. increment_error_count_raises env = Some m \<or>
           (increment_error_count_raises env = None \<and> get_error_count_raises env = Some m) \<longrightarrow>
           fst (run_cycle env s) = Inl (External m))) \<and>
   \<not> is_initialized (new_bot_manager cfg) \<and>
   (fst (initialize ienv s0) = Inr () \<longrightarrow> is_initialized (snd (initialize ienv s0))) \<and>
   (isl (fst (initialize ienv s0)) \<longrightarrow>
      is_initialized (snd (initialize ienv s0)) = is_initialized s0)"
proof -
  have "\<not> is_initialized (new_bot_manager cfg)"
    by (simp add: new_bot_manager_def)
  with run_cycle_outcomes [of env s] initialize_is_initialized [of ienv s0]
  show ?thesis by (elim conjE, intro conjI) assumption+
qed

text \<open>
  The theorem at a cycle whose data fetch raises, on the initialised manager and on a
  manager that was only constructed.
\<close>

theorem run_cycle_exceptions_witness:
  "is_initialized ready_manager \<and> fst (run_cycle fetch_fails ready_manager) = Inr () \<and>
   fst (run_cycle fetch_fails (new_bot_manager example_config)) = Inl NotInitialized"
  using run_cycle_exceptions [of fetch_fails ready_manager]
    run_cycle_exceptions [of fetch_fails "new_bot_manager example_config"]
  by (simp add: ready_manager_eq fetch_fails_def new_bot_manager_def)

text \<open>
  C7 as stated fails: the manager is initialised, the data fetch raises, the handler's
  \<^verbatim>\<open>increment_error_count\<close> raises, and that exception leaves \<^verbatim>\<open>run_cycle\<close>.
\<close>

theorem run_cycle_propagates_handler_exception:
  "is_initialized ready_manager \<and>
   fst (run_cycle handler_fails ready_manager) = Inl (External ''metrics backend down'')"
  by (simp add: ready_manager_eq run_cycle_def cycle_body_def handler_fails_def
        handle_cycle_error_def call_external_simps)

subsection \<open>Cleanup\<close>

text \<open>
  C8, as amended. With the three components present, \<^verbatim>\<open>cleanup\<close> releases them in
  the order they were acquired (exchange, data, metrics). The first release that raises
  ends the cleanup: its exception reaches the caller and the components after it are not
  released.
\<close>

theorem cleanup_in_acquisition_order:
  assumes "exchange_manager s = Some em" and "data_manager s = Some dm"
    and "metrics_collector s = Some mc"
  shows "cleanup env s =
     (case exchange_cleanup_raises env of
        Some m \<Rightarrow> (Inl (External m), s\<lparr>calls := calls s @ [Exchange_cleanup]\<rparr>)
      | None \<Rightarrow>
     (case data_cleanup_raises env of
        Some m \<Rightarrow> (Inl (External m), s\<lparr>calls := calls s @ [Exchange_cleanup, Data_cleanup]\<rparr>)
      | None \<Rightarrow>
     (case metrics_cleanup_raises env of
        Some m \<Rightarrow> (Inl (External m),
                   s\<lparr>calls := calls s @ [Exchange_cleanup, Data_cleanup, Metrics_cleanup]\<rparr>)
      | None \<Rightarrow> (Inr (),
                   s\<lparr>calls := calls s @ [Exchange_cleanup, Data_cleanup, Metrics_cleanup]\<rparr>))))"
  using assms
  by (cases "exchange_cleanup_raises env"; cases "data_cleanup_raises env";
      cases "metrics_cleanup_raises env")
     (simp_all add: cleanup_def call_external_simps)

text \<open>
  The theorem at the initialised manager, when no release raises.
\<close>

theorem cleanup_witness:
  "cleanup cleanup_ok ready_manager =
     (Inr (), ready_manager\<lparr>calls := calls ready_manager @
                [Exchange_cleanup, Data_cleanup, Metrics_cleanup]\<rparr>)"
proof -
  have h1: "exchange_manager ready_manager = Some (ExchangeManager (exchanges example_config))"
    and h2: "data_manager ready_manager = Some (DataManager (data example_config))"
    and h3: "metrics_collector ready_manager = Some \<lparr>error_count = 0, recorded = []\<rparr>"
    by (simp_all add: ready_manager_eq)
  from cleanup_in_acquisition_order [OF h1 h2 h3, of cleanup_ok]
  show ?thesis by (simp add: cleanup_ok_def)
qed

text \<open>
  C8 as stated fails: on the initialised manager the releases are exchange, data, metrics,
  not the reverse; and when the release of the exchange manager raises, the exception
  leaves \<^verbatim>\<open>cleanup\<close> and neither the data manager nor the collector is released.
\<close>

theorem cleanup_forward_and_not_tolerant:
  "calls (snd (cleanup cleanup_ok ready_manager)) =
     calls ready_manager @ [Exchange_cleanup, Data_cleanup, Metrics_cleanup] \<and>
   calls (snd (cleanup cleanup_ok ready_manager)) \<noteq>
     calls ready_manager @ [Metrics_cleanup, Data_cleanup, Exchange_cleanup] \<and>
   fst (cleanup cleanup_exchange_fails ready_manager) = Inl (External ''connection reset'') \<and>
   calls (snd (cleanup cleanup_exchange_fails ready_manager)) =
     calls ready_manager @ [Exchange_cleanup]"
  by (simp add: cleanup_def call_external_simps cleanup_ok_def cleanup_exchange_fails_def
        ready_manager_eq)

subsection \<open>The risk gates\<close>

text \<open>
  C3. The approved signals of an assessment are the whole input list, in order, when
  trading is allowed, and the empty list when it is not; so they are a subsequence of the
  input, and a non-empty list of approved signals means that trading is allowed. This
  holds for every exposure and P&L reading, and of the method as shipped.
\<close>

theorem approved_all_or_nothing:
  "approved_signals (assess_risks_from rc exposure pnl signals) =
     (if can_trade (assess_risks_from rc exposure pnl signals) then signals else []) \<and>
   approved_signals (assess_risks cfg signals md) =
     (if can_trade (assess_risks cfg signals md) then signals else []) \<and>
   subseq (approved_signals (assess_risks cfg signals md)) signals \<and>
   (approved_signals (assess_risks cfg signals md) \<noteq> [] \<longrightarrow>
      can_trade (assess_risks cfg signals md))"
  by (simp add: assess_risks_def assess_risks_from_def Let_def split: prod.splits)

text \<open>
  The theorem at one signal and the example configuration: the signal is approved.
\<close>

theorem approved_witness:
  "approved_signals (assess_risks example_config [example_signal] example_market) \<noteq> [] \<and>
   can_trade (assess_risks example_config [example_signal] example_market) \<and>
   approved_signals (assess_risks example_config [example_signal] example_market) =
     [example_signal]"
  using approved_all_or_nothing [of "risk example_config" 0 0 "[example_signal]"
          example_config example_market]
  by (simp add: assess_risks_def assess_risks_from_def example_config_def
        calculate_current_exposure_def calculate_daily_pnl_def)

text \<open>
  C4. In \<^verbatim>\<open>_assess_risks\<close> both gates are evaluated, each on its own: trading is refused
  exactly when the exposure is above \<^verbatim>\<open>global_exposure_cap_pct\<close> or the daily P&L is
  below minus \<^verbatim>\<open>daily_loss_cap_pct\<close>, and the number of reasons is the number of gates
  that failed. The same holds of the assessment the shipped method returns, read off its
  own \<open>current_exposure\<close> and \<open>daily_pnl\<close> fields. With an exposure of 21 and a cap
  of 20 trading is refused and the exposure reason is among the reasons; with a P&L of
  -6 and a loss cap of 5 trading is refused.
\<close>

theorem assess_risks_gates:
  "(\<not> can_trade (assess_risks_from rc exposure pnl signals) \<longleftrightarrow>
      exposure > global_exposure_cap_pct rc \<or> pnl < - daily_loss_cap_pct rc) \<and>
   length (reasons (assess_risks_from rc exposure pnl signals)) =
      (if exposure > global_exposure_cap_pct rc then 1 else 0) +
      (if pnl < - daily_loss_cap_pct rc then 1 else 0) \<and>
   (\<not> can_trade (assess_risks cfg signals md) \<longleftrightarrow>
      current_exposure (assess_risks cfg signals md) > global_exposure_cap_pct (risk cfg) \<or>
      daily_pnl (assess_risks cfg signals md) < - daily_loss_cap_pct (risk cfg)) \<and>
   \<not> can_trade (assess_risks_from
                  \<lparr>global_exposure_cap_pct = 20, daily_loss_cap_pct = loss_cap\<rparr>
                  21 pnl signals) \<and>
   Exposure_too_high 21 \<in> set (reasons (assess_risks_from
                  \<lparr>global_exposure_cap_pct = 20, daily_loss_cap_pct = loss_cap\<rparr>
                  21 pnl signals)) \<and>
   \<not> can_trade (assess_risks_from
                  \<lparr>global_exposure_cap_pct = cap, daily_loss_cap_pct = 5\<rparr>
                  exposure (- 6) signals)"
  by (simp add: assess_risks_def assess_risks_from_def Let_def)

text \<open>
  C10. The reasons of an assessment are empty exactly when trading is allowed. They hold
  one entry per failed gate: the exposure reason, if the exposure gate failed, and after
  it the daily-loss reason, if the loss gate failed.
\<close>

theorem assess_risks_reasons:
  "(reasons (assess_risks_from rc exposure pnl signals) = [] \<longleftrightarrow>
      can_trade (assess_risks_from rc exposure pnl signals)) \<and>
   reasons (assess_risks_from rc exposure pnl signals) =
      (if exposure > global_exposure_cap_pct rc then [Exposure_too_high exposure] else []) @
      (if pnl < - daily_loss_cap_pct rc then [Daily_loss_limit pnl] else []) \<and>
   (reasons (assess_risks cfg signals md) = [] \<longleftrightarrow>
      can_trade (assess_risks cfg signals md))"
  by (simp add: assess_risks_def assess_risks_from_def Let_def)

subsection \<open>The signal generator\<close>




text \<open>
  C6. With an RSI between 0 and 100, \<open>0 < rsi_low\<close> and \<open>rsi_high < 100\<close>,
  \<^verbatim>\<open>_mean_reversion_signal\<close> returns without error, and the strength of a signal it
  returns lies between 0 and 1.
\<close>

theorem strength_bounds:
  assumes "\<forall>r. map_of d ''rsi'' = Some r \<longrightarrow> 0 \<le> r \<and> r \<le> 100"
    and "0 < rsi_low (entry sc)" and "rsi_high (exit sc) < 100"
  shows "(\<exists>res. mean_reversion_signal s d sc = Inr res) \<and>
         (\<forall>g. mean_reversion_signal s d sc = Inr (Some g) \<longrightarrow>
               0 \<le> signal_strength g \<and> signal_strength g \<le> 1)"
proof -
  have nz: "rsi_low (entry sc) \<noteq> 0" "rsi_high (exit sc) \<noteq> 100"
    using assms(2,3) by auto
  show ?thesis
    unfolding mean_reversion_signal_result [OF nz]
    using assms
    by (auto split: option.splits if_splits simp: divide_simps)
qed

text \<open>
  The theorem at an RSI of 25 with thresholds 30 and 70.
\<close>

theorem strength_witness:
  "\<exists>g. mean_reversion_signal ''BTC/USDT'' [(''rsi'', 25)] (strategy example_config) =
          Inr (Some g) \<and> 0 \<le> signal_strength g \<and> signal_strength g \<le> 1"
proof -
  have h1: "\<forall>r. map_of [(''rsi'', 25::real)] ''rsi'' = Some r \<longrightarrow> 0 \<le> r \<and> r \<le> 100"
    by simp
  have h2: "0 < rsi_low (entry (strategy example_config))"
    and h3: "rsi_high (exit (strategy example_config)) < 100"
    by (simp_all add: example_config_def)
  have "mean_reversion_signal ''BTC/USDT'' [(''rsi'', 25)] (strategy example_config) =
          Inr (Some \<lparr>symbol = ''BTC/USDT'', action = ''buy'', signal_strength = 1 / 6,
            timestamp = None, reason = RSI_oversold 25\<rparr>)"
    by (simp add: mean_reversion_signal_def py_truediv_def example_config_def)
  with strength_bounds [OF h1 h2 h3, of "''BTC/USDT''"]
  show ?thesis by blast
qed

end
